theory Spec2Isabelle
  imports Main "HOL-Library.Word"
begin

section \<open>JavaScript values as the bridge sees them\<close>

text \<open>
  Both bridges (the express server and the Cloudflare worker) handle values that come out
  of \<^verbatim>\<open>JSON.parse\<close> or out of a parsed request body. A value is one of the JSON shapes, or
  \<^verbatim>\<open>undefined\<close> (a field that is not there). Numbers are never computed with, so their
  representation \<open>'n\<close> is left open. An object is its list of own properties in property
  order; a string is its list of code units.
\<close>

datatype 'n jsval =
    JUndefined
  | JNull
  | JBool bool
  | JNum 'n
  | JStr string
  | JArr "'n jsval list"
  | JObj "(string \<times> 'n jsval) list"

type_synonym 'n jsobj = "(string \<times> 'n jsval) list"

text \<open>Reading a property \<^verbatim>\<open>o.k\<close> of an object literal: the first entry wins.\<close>

fun obj_get :: "'n jsobj \<Rightarrow> string \<Rightarrow> 'n jsval option" where
  "obj_get [] k = None"
| "obj_get ((k', v) # ps) k = (if k' = k then Some v else obj_get ps k)"

text \<open>
  Defining a property \<^verbatim>\<open>k: v\<close> in an object literal under construction: an existing
  property keeps its place and takes the new value, a new one goes last.
\<close>

fun obj_set :: "string \<Rightarrow> 'n jsval \<Rightarrow> 'n jsobj \<Rightarrow> 'n jsobj" where
  "obj_set k v [] = [(k, v)]"
| "obj_set k v ((k', v') # ps) =
     (if k' = k then (k, v) # ps else (k', v') # obj_set k v ps)"

text \<open>The operator \<^verbatim>\<open>typeof\<close>.\<close>

fun typeof :: "'n jsval \<Rightarrow> string" where
  "typeof JUndefined = ''undefined''"
| "typeof JNull = ''object''"
| "typeof (JBool b) = ''boolean''"
| "typeof (JNum n) = ''number''"
| "typeof (JStr s) = ''string''"
| "typeof (JArr xs) = ''object''"
| "typeof (JObj ps) = ''object''"

text \<open>Decimal rendering of an array index, as a property key.\<close>

fun digit_char :: "nat \<Rightarrow> char" where
  "digit_char n = char_of (48 + n)"

fun string_of_nat :: "nat \<Rightarrow> string" where
  "string_of_nat n =
     (if n < 10 then [digit_char n]
      else string_of_nat (n div 10) @ [digit_char (n mod 10)])"

declare string_of_nat.simps [simp del]

fun index_props :: "nat \<Rightarrow> 'n jsval list \<Rightarrow> 'n jsobj" where
  "index_props i [] = []"
| "index_props i (x # xs) = (string_of_nat i, x) # index_props (Suc i) xs"

text \<open>
  The own enumerable properties that the spread \<^verbatim>\<open>{...v}\<close> copies: those of an object,
  the indices of an array or of a string, and nothing for \<^verbatim>\<open>undefined\<close>, \<^verbatim>\<open>null\<close>, a
  boolean or a number.
\<close>

fun own_props :: "'n jsval \<Rightarrow> 'n jsobj" where
  "own_props (JObj ps) = ps"
| "own_props (JArr xs) = index_props 0 xs"
| "own_props (JStr s) = index_props 0 (map (\<lambda>c. JStr [c]) s)"
| "own_props JUndefined = []"
| "own_props JNull = []"
| "own_props (JBool b) = []"
| "own_props (JNum n) = []"

datatype js_error = SyntaxError | TypeError

text \<open>
  The destructuring \<^verbatim>\<open>const { k } = body\<close>: it throws on \<^verbatim>\<open>null\<close> and \<^verbatim>\<open>undefined\<close>,
  reads the property of an object, and finds nothing named \<open>k\<close> on the other values
  (the handlers only ask for \<^verbatim>\<open>state\<close> and \<^verbatim>\<open>command\<close>).
\<close>

fun destructure :: "'n jsval \<Rightarrow> string \<Rightarrow> js_error + 'n jsval" where
  "destructure JUndefined k = Inl TypeError"
| "destructure JNull k = Inl TypeError"
| "destructure (JObj ps) k = Inr (case obj_get ps k of None \<Rightarrow> JUndefined | Some v \<Rightarrow> v)"
| "destructure v k = Inr JUndefined"

text \<open>
  \<^verbatim>\<open>String.prototype.trim\<close> strips the platform's white space from both ends. The class
  of white-space code units is the parameter \<open>ws\<close>.
\<close>

definition trim :: "(char \<Rightarrow> bool) \<Rightarrow> string \<Rightarrow> string" where
  "trim ws s = rev (dropWhile ws (rev (dropWhile ws s)))"

text \<open>
  The method call \<^verbatim>\<open>v.trim()\<close> on a value: only a string has a callable \<^verbatim>\<open>trim\<close>; on
  \<^verbatim>\<open>undefined\<close> and \<^verbatim>\<open>null\<close> the property access throws, on every other value the call
  of the missing method does.
\<close>

fun call_trim :: "(char \<Rightarrow> bool) \<Rightarrow> 'n jsval \<Rightarrow> js_error + string" where
  "call_trim ws (JStr s) = Inr (trim ws s)"
| "call_trim ws v = Inl TypeError"

text \<open>
  The optional chain \<^verbatim>\<open>v?.trim()\<close>: \<^verbatim>\<open>undefined\<close> when \<open>v\<close> is \<^verbatim>\<open>undefined\<close> or
  \<^verbatim>\<open>null\<close>, the method call otherwise.
\<close>

definition optional_trim :: "(char \<Rightarrow> bool) \<Rightarrow> 'n jsval \<Rightarrow> js_error + 'n jsval" where
  "optional_trim ws v =
     (if v = JUndefined \<or> v = JNull then Inr JUndefined
      else case call_trim ws v of Inl err \<Rightarrow> Inl err | Inr t \<Rightarrow> Inr (JStr t))"

text \<open>
  The text of a string value, as a template literal inserts it (the handlers insert
  nothing but strings).
\<close>

fun own_text :: "'n jsval \<Rightarrow> string" where
  "own_text (JStr s) = s"
| "own_text v = []"

text \<open>
  Truthiness, as \<^verbatim>\<open>!\<close> and \<^verbatim>\<open>? :\<close> test it. JSON has no \<^verbatim>\<open>NaN\<close>; the zero of \<open>'n\<close>
  stands for both signed zeros. The handlers test booleans, strings and \<^verbatim>\<open>undefined\<close>
  only.
\<close>

fun truthy :: "('n::zero) jsval \<Rightarrow> bool" where
  "truthy JUndefined = False"
| "truthy JNull = False"
| "truthy (JBool b) = b"
| "truthy (JNum n) = (n \<noteq> 0)"
| "truthy (JStr s) = (s \<noteq> [])"
| "truthy (JArr xs) = True"
| "truthy (JObj ps) = True"

section \<open>Topic namespace\<close>

text \<open>
  The express bridge: \<^verbatim>\<open>const deviceId = process.env.DEVICE_ID || "esp8266_001"\<close> and the
  constant \<^verbatim>\<open>TOPICS\<close> built from it.
\<close>

definition or_default :: "string option \<Rightarrow> string" where
  "or_default env_id =
     (case env_id of None \<Rightarrow> ''esp8266_001''
      | Some s \<Rightarrow> if s = [] then ''esp8266_001'' else s)"

record topic_set =
  data :: string
  command :: string
  status :: string

definition TOPICS :: "string \<Rightarrow> topic_set" where
  "TOPICS deviceId =
     \<lparr> data = ''device/'' @ deviceId @ ''/data'',
       command = ''device/'' @ deviceId @ ''/command'',
       status = ''device/'' @ deviceId @ ''/status'' \<rparr>"

text \<open>
  The worker writes the same three template strings in place wherever it needs a topic
  (in \<^verbatim>\<open>initMqtt\<close>, in the handler of \<^verbatim>\<open>GET /\<close> and in the command handlers), from
  \<^verbatim>\<open>env.DEVICE_ID || "esp8266_001"\<close>.
\<close>

definition worker_topics :: "string \<Rightarrow> topic_set" where
  "worker_topics deviceId =
     \<lparr> data = ''device/'' @ deviceId @ ''/data'',
       command = ''device/'' @ deviceId @ ''/command'',
       status = ''device/'' @ deviceId @ ''/status'' \<rparr>"

text \<open>
  The firmware: \<^verbatim>\<open>String("device/") + deviceId + "/data"\<close> and its two siblings, with
  \<^verbatim>\<open>deviceId\<close> taken from \<^verbatim>\<open>config.h\<close>.
\<close>

definition topicData :: "string \<Rightarrow> string" where
  "topicData deviceId = (''device/'' @ deviceId) @ ''/data''"

definition topicCommand :: "string \<Rightarrow> string" where
  "topicCommand deviceId = (''device/'' @ deviceId) @ ''/command''"

definition topicStatus :: "string \<Rightarrow> string" where
  "topicStatus deviceId = (''device/'' @ deviceId) @ ''/status''"

section \<open>The express bridge\<close>

text \<open>
  The module state of the bridge: the variable \<^verbatim>\<open>latestData\<close>, the broker client (its
  handle, its \<^verbatim>\<open>connected\<close> flag, the number of \<^verbatim>\<open>mqtt.connect\<close> calls made so far and
  the publish calls handed to it, each with topic, payload and QoS) and the console.
  The express bridge creates its one client at start-up; the worker's variable
  \<^verbatim>\<open>mqttClient\<close> starts as \<^verbatim>\<open>null\<close>.
\<close>

record 'n bridge =
  latestData :: "'n jsobj"
  mqttClient :: "nat option"
  connected :: bool
  connects :: nat
  published :: "(string \<times> string \<times> nat) list"
  console :: "string list"

text \<open>
  The state once the module has loaded, at time \<open>t0\<close> (the value of
  \<^verbatim>\<open>new Date().toISOString()\<close> then): the placeholder snapshot, the two lines logged
  before \<^verbatim>\<open>mqtt.connect\<close>, and a client that has not connected yet. \<open>host\<close> and \<open>port\<close>
  are \<^verbatim>\<open>MQTT_CONFIG.host\<close> and \<^verbatim>\<open>MQTT_CONFIG.port\<close> as the template literal renders
  them.
\<close>

definition express_init :: "string \<Rightarrow> string \<Rightarrow> string \<Rightarrow> 'n bridge" where
  "express_init host port t0 =
     \<lparr> latestData = [(''ledState'', JBool False), (''timestamp'', JStr t0)],
       mqttClient = Some 0, connected = False, connects = 1,
       published = [],
       console = [''### Initializing MQTT client...'',
                  ''### Connecting to: '' @ host @ '':'' @ port] \<rparr>"

definition log_line :: "string \<Rightarrow> 'n bridge \<Rightarrow> 'n bridge" where
  "log_line l st = st\<lparr>console := console st @ [l]\<rparr>"

text \<open>
  The callback of \<^verbatim>\<open>app.listen\<close>, run once the HTTP server listens on \<open>http_port\<close>
  (\<^verbatim>\<open>process.env.PORT || 3000\<close>, as rendered): it logs the banner and touches nothing
  else.
\<close>

definition on_listening :: "string \<Rightarrow> string \<Rightarrow> 'n bridge \<Rightarrow> 'n bridge" where
  "on_listening http_port deviceId st =
     st\<lparr>console := console st @
        [CHR 0x0A # '' > Server running at http://localhost:'' @ http_port,
         ''### Device ID: '' @ deviceId,
         CHR 0x0A # ''Endpoints:'',
         ''  GET  /                  - health check'',
         ''  GET  /api/data          - get device data'',
         ''  GET  /api/status        - get mqtt status'',
         ''  POST /api/command/led   - control led { state: boolean }'',
         ''  POST /api/command       - custom command { command: string }'']\<rparr>"

text \<open>
  The body of the \<^verbatim>\<open>try\<close> block of the message handler. \<open>parse\<close> is \<^verbatim>\<open>JSON.parse\<close>
  (\<open>None\<close> when it throws), \<open>now\<close> the time at which the handler runs.
\<close>

definition message_try ::
  "(string \<Rightarrow> 'n jsval option) \<Rightarrow> string \<Rightarrow> string \<Rightarrow> string \<Rightarrow> string \<Rightarrow> 'n bridge
     \<Rightarrow> js_error + 'n bridge" where
  "message_try parse deviceId now topic messageStr st =
     (if topic = data (TOPICS deviceId) then
        (case parse messageStr of
           None \<Rightarrow> Inl SyntaxError
         | Some parsedData \<Rightarrow>
             Inr (log_line ''Data updated''
                    (st\<lparr>latestData :=
                          obj_set ''timestamp'' (JStr now) (own_props parsedData)\<rparr>)))
      else if topic = status (TOPICS deviceId) then
        Inr (log_line (''Status: '' @ messageStr) st)
      else Inr st)"

text \<open>The handler of the client's \<^verbatim>\<open>message\<close> event, with its \<^verbatim>\<open>catch\<close>.\<close>

definition on_message ::
  "(string \<Rightarrow> 'n jsval option) \<Rightarrow> string \<Rightarrow> string \<Rightarrow> string \<Rightarrow> string \<Rightarrow> 'n bridge
     \<Rightarrow> 'n bridge" where
  "on_message parse deviceId now topic messageStr st =
     (let st1 = log_line (''Received ['' @ topic @ '']: '' @ messageStr) st
      in case message_try parse deviceId now topic messageStr st1 of
           Inl err \<Rightarrow> log_line ''Parse error:'' st1
         | Inr st2 \<Rightarrow> st2)"

text \<open>
  The client hands the inbound messages to the handler one after the other; a message is
  its receipt time, its topic and its text.
\<close>

fun deliver ::
  "(string \<Rightarrow> 'n jsval option) \<Rightarrow> string \<Rightarrow> (string \<times> string \<times> string) list \<Rightarrow> 'n bridge
     \<Rightarrow> 'n bridge" where
  "deliver parse deviceId [] st = st"
| "deliver parse deviceId ((now, topic, messageStr) # ms) st =
     deliver parse deviceId ms (on_message parse deviceId now topic messageStr st)"

text \<open>
  The receipt time the specification asks the snapshot to carry: that of the last
  telemetry message that parsed, and the start-up time \<open>t\<close> while there is none.
\<close>

fun last_receipt ::
  "(string \<Rightarrow> 'n jsval option) \<Rightarrow> string \<Rightarrow> string \<Rightarrow> (string \<times> string \<times> string) list
     \<Rightarrow> string" where
  "last_receipt parse topic_in t [] = t"
| "last_receipt parse topic_in t ((now, topic, messageStr) # ms) =
     last_receipt parse topic_in
       (if topic = topic_in \<and> parse messageStr \<noteq> None then now else t) ms"

text \<open>What a handler has answered when it returns.\<close>

datatype 'n reply =
    Threw js_error
  | Reply nat "'n jsobj"
  | NoReply

text \<open>
  What the client library does with the completion callback of a publish: it calls it
  without an error, calls it with one, or has not called it.
\<close>

datatype puback = CbOk | CbErr | NoCb

text \<open>\<^verbatim>\<open>GET /api/data\<close>.\<close>

definition api_data :: "'n bridge \<Rightarrow> 'n reply" where
  "api_data st =
     Reply 200 [(''success'', JBool True), (''data'', JObj (latestData st)),
                (''mqttConnected'', JBool (connected st))]"

definition publish :: "string \<Rightarrow> string \<Rightarrow> nat \<Rightarrow> 'n bridge \<Rightarrow> 'n bridge" where
  "publish topic payload qos st = st\<lparr>published := published st @ [(topic, payload, qos)]\<rparr>"

text \<open>The callback given to \<^verbatim>\<open>mqttClient.publish\<close> by both command handlers.\<close>

definition publish_callback ::
  "puback \<Rightarrow> 'n jsobj \<Rightarrow> 'n bridge \<Rightarrow> 'n reply \<times> 'n bridge" where
  "publish_callback cb ok st =
     (case cb of
        CbErr \<Rightarrow>
          (Reply 500 [(''success'', JBool False), (''message'', JStr ''Failed to send command'')],
           log_line ''Publish failed:'' st)
      | CbOk \<Rightarrow> (Reply 200 ok, st)
      | NoCb \<Rightarrow> (NoReply, st))"

text \<open>\<^verbatim>\<open>POST /api/command/led\<close>.\<close>

definition post_command_led ::
  "string \<Rightarrow> ('n::zero) jsval \<Rightarrow> puback \<Rightarrow> 'n bridge \<Rightarrow> 'n reply \<times> 'n bridge" where
  "post_command_led deviceId body cb st =
     (case destructure body ''state'' of
        Inl err \<Rightarrow> (Threw err, st)
      | Inr state \<Rightarrow>
          if typeof state \<noteq> ''boolean'' then
            (Reply 400 [(''success'', JBool False),
                        (''message'', JStr ''Invalid command. Expected { state: boolean }'')],
             st)
          else
            (let cmd = (if truthy state then ''LED_ON'' else ''LED_OFF'')
             in publish_callback cb
                  [(''success'', JBool True),
                   (''message'', JStr (''LED turned '' @ (if truthy state then ''ON'' else ''OFF''))),
                   (''command'', JStr cmd)]
                  (publish (command (TOPICS deviceId)) cmd 1
                     (log_line (''Command: '' @ cmd) st))))"

text \<open>
  \<^verbatim>\<open>POST /api/command\<close>. The text that is logged is the untrimmed one; the text that is
  published and answered is trimmed.
\<close>

definition post_command ::
  "(char \<Rightarrow> bool) \<Rightarrow> string \<Rightarrow> 'n jsval \<Rightarrow> puback \<Rightarrow> 'n bridge \<Rightarrow> 'n reply \<times> 'n bridge" where
  "post_command ws deviceId body cb st =
     (case destructure body ''command'' of
        Inl err \<Rightarrow> (Threw err, st)
      | Inr cmd \<Rightarrow>
          if typeof cmd \<noteq> ''string'' \<or> call_trim ws cmd = Inr [] then
            (Reply 400 [(''success'', JBool False), (''message'', JStr ''Invalid command'')], st)
          else
            (case call_trim ws cmd of
               Inl err \<Rightarrow> (Threw err, st)
             | Inr t \<Rightarrow>
                 publish_callback cb
                   [(''success'', JBool True), (''message'', JStr ''Command sent''),
                    (''command'', JStr t)]
                   (publish (command (TOPICS deviceId)) t 1
                      (log_line (''Custom command: '' @ own_text cmd) st))))"

section \<open>The worker bridge\<close>

definition worker_init :: "string \<Rightarrow> 'n bridge" where
  "worker_init t0 =
     \<lparr> latestData = [(''ledState'', JBool False), (''timestamp'', JStr t0)],
       mqttClient = None, connected = False, connects = 0,
       published = [], console = [] \<rparr>"

text \<open>
  \<^verbatim>\<open>initMqtt\<close>: the client at hand is kept when it is connected; otherwise
  \<^verbatim>\<open>mqtt.connect\<close> makes a new one, which is not connected yet.
\<close>

definition initMqtt :: "'n bridge \<Rightarrow> 'n bridge" where
  "initMqtt st =
     (if mqttClient st \<noteq> None \<and> connected st then st
      else st\<lparr>mqttClient := Some (connects st), connected := False,
              connects := Suc (connects st)\<rparr>)"

text \<open>The message handler that \<^verbatim>\<open>initMqtt\<close> registers; its \<^verbatim>\<open>catch\<close> block is empty.\<close>

definition worker_message_try ::
  "(string \<Rightarrow> 'n jsval option) \<Rightarrow> string \<Rightarrow> string \<Rightarrow> 'n bridge \<Rightarrow> js_error + 'n bridge" where
  "worker_message_try parse now msg st =
     (case parse msg of
        None \<Rightarrow> Inl SyntaxError
      | Some v \<Rightarrow> Inr (st\<lparr>latestData := obj_set ''timestamp'' (JStr now) (own_props v)\<rparr>))"

definition worker_on_message ::
  "(string \<Rightarrow> 'n jsval option) \<Rightarrow> string option \<Rightarrow> string \<Rightarrow> string \<Rightarrow> string \<Rightarrow> 'n bridge
     \<Rightarrow> 'n bridge" where
  "worker_on_message parse env_id now topic msg st =
     (if topic = data (worker_topics (or_default env_id)) then
        (case worker_message_try parse now msg st of
           Inl err \<Rightarrow> st
         | Inr st2 \<Rightarrow> st2)
      else st)"

fun worker_deliver ::
  "(string \<Rightarrow> 'n jsval option) \<Rightarrow> string option \<Rightarrow> (string \<times> string \<times> string) list
     \<Rightarrow> 'n bridge \<Rightarrow> 'n bridge" where
  "worker_deliver parse env_id [] st = st"
| "worker_deliver parse env_id ((now, topic, msg) # ms) st =
     worker_deliver parse env_id ms (worker_on_message parse env_id now topic msg st)"

definition worker_api_data :: "'n bridge \<Rightarrow> 'n reply \<times> 'n bridge" where
  "worker_api_data st =
     (let st1 = initMqtt st
      in (Reply 200 [(''success'', JBool True), (''data'', JObj (latestData st1)),
                     (''mqttConnected'', JBool (mqttClient st1 \<noteq> None \<and> connected st1))],
          st1))"

text \<open>
  \<^verbatim>\<open>POST /api/command/led\<close> in the worker: the publish is issued without a completion
  callback and the answer follows at once.
\<close>

definition worker_post_command_led ::
  "string option \<Rightarrow> ('n::zero) jsval \<Rightarrow> 'n bridge \<Rightarrow> 'n reply \<times> 'n bridge" where
  "worker_post_command_led env_id body st =
     (let st1 = initMqtt st
      in case destructure body ''state'' of
           Inl err \<Rightarrow> (Threw err, st1)
         | Inr state \<Rightarrow>
             if typeof state \<noteq> ''boolean'' then
               (Reply 400 [(''success'', JBool False), (''message'', JStr ''Invalid state'')], st1)
             else
               (let cmd = (if truthy state then ''LED_ON'' else ''LED_OFF'')
                in (Reply 200
                      [(''success'', JBool True),
                       (''message'',
                        JStr (''LED turned '' @ (if truthy state then ''ON'' else ''OFF''))),
                       (''command'', JStr cmd)],
                    publish (command (worker_topics (or_default env_id))) cmd 1 st1)))"

text \<open>
  \<^verbatim>\<open>POST /api/command\<close> in the worker, guarded by \<^verbatim>\<open>!command?.trim()\<close>.
\<close>

definition worker_post_command ::
  "(char \<Rightarrow> bool) \<Rightarrow> string option \<Rightarrow> ('n::zero) jsval \<Rightarrow> 'n bridge \<Rightarrow> 'n reply \<times> 'n bridge" where
  "worker_post_command ws env_id body st =
     (let st1 = initMqtt st
      in case destructure body ''command'' of
           Inl err \<Rightarrow> (Threw err, st1)
         | Inr cmd \<Rightarrow>
             (case optional_trim ws cmd of
                Inl err \<Rightarrow> (Threw err, st1)
              | Inr g \<Rightarrow>
                  if \<not> truthy g then
                    (Reply 400 [(''success'', JBool False), (''message'', JStr ''Invalid command'')],
                     st1)
                  else
                    (case call_trim ws cmd of
                       Inl err \<Rightarrow> (Threw err, st1)
                     | Inr t \<Rightarrow>
                         (Reply 200 [(''success'', JBool True), (''message'', JStr ''Command sent''),
                                     (''command'', JStr t)],
                          publish (command (worker_topics (or_default env_id))) t 1 st1))))"

section \<open>The firmware\<close>

text \<open>
  The sketch's globals: the level written to the LED pin (the LED is wired active-low),
  \<^verbatim>\<open>ledState\<close>, \<^verbatim>\<open>lastPublish\<close> (an \<^verbatim>\<open>unsigned long\<close> of 32 bits), every call of
  \<^verbatim>\<open>client.publish\<close> with the answer the client gave, and the serial output.
\<close>

datatype level = LOW | HIGH

record device =
  ledPin :: level
  ledState :: bool
  lastPublish :: "32 word"
  publishes :: "(string \<times> string \<times> bool) list"
  serial :: "string list"

text \<open>What the board reports when \<^verbatim>\<open>publishData\<close> asks: \<^verbatim>\<open>millis()\<close>,
  \<^verbatim>\<open>ESP.getFreeHeap()\<close> and \<^verbatim>\<open>WiFi.RSSI()\<close> (a signed 32-bit value, kept as its word).\<close>

record readings =
  millis :: "32 word"
  freeHeap :: "32 word"
  rssi :: "32 word"

datatype doc_value = DBool bool | DUInt "32 word" | DInt "32 word"

type_synonym json_doc = "(string \<times> doc_value) list"

definition println :: "string \<Rightarrow> device \<Rightarrow> device" where
  "println l st = st\<lparr>serial := serial st @ [l]\<rparr>"

text \<open>
  \<^verbatim>\<open>publishData\<close>. \<open>ser\<close> is \<^verbatim>\<open>serializeJson\<close>, \<open>accepted\<close> the result of
  \<^verbatim>\<open>client.publish\<close>.
\<close>

definition publishData ::
  "(json_doc \<Rightarrow> string) \<Rightarrow> bool \<Rightarrow> readings \<Rightarrow> string \<Rightarrow> device \<Rightarrow> device" where
  "publishData ser accepted env deviceId st =
     (let doc = [(''ledState'', DBool (ledState st)),
                 (''uptime'', DUInt (millis env div 1000)),
                 (''freeHeap'', DUInt (freeHeap env)),
                 (''rssi'', DInt (rssi env))];
          jsonBuffer = ser doc;
          st1 = st\<lparr>publishes := publishes st @ [(topicData deviceId, jsonBuffer, accepted)]\<rparr>
      in if accepted then println (''Published: '' @ jsonBuffer) st1
         else println ''Publish failed'' st1)"

text \<open>
  \<^verbatim>\<open>callback\<close>: the message is the first \<open>len\<close> bytes of the payload buffer, taken as
  text without NUL bytes, so that \<^verbatim>\<open>String\<close> equality is equality of the texts.
\<close>

definition callback ::
  "(json_doc \<Rightarrow> string) \<Rightarrow> bool \<Rightarrow> readings \<Rightarrow> string \<Rightarrow> string \<Rightarrow> string \<Rightarrow> nat \<Rightarrow> device
     \<Rightarrow> device" where
  "callback ser accepted env deviceId topic payload len st =
     (let message = take len payload;
          st1 = println (''Message ['' @ topic @ '']: '' @ message) st
      in if topic = topicCommand deviceId then
           (if message = ''LED_ON'' then
              publishData ser accepted env deviceId
                (println ''LED ON'' (st1\<lparr>ledPin := LOW, ledState := True\<rparr>))
            else if message = ''LED_OFF'' then
              publishData ser accepted env deviceId
                (println ''LED OFF'' (st1\<lparr>ledPin := HIGH, ledState := False\<rparr>))
            else println ''Unknown command'' st1)
         else st1)"

text \<open>
  The timer of \<^verbatim>\<open>loop\<close>: \<^verbatim>\<open>now - lastPublish > publishInterval\<close> in unsigned 32-bit
  arithmetic, with \<^verbatim>\<open>publishInterval = 5000\<close>.
\<close>

definition publishInterval :: "32 word" where
  "publishInterval = 5000"

definition loop_timer ::
  "(json_doc \<Rightarrow> string) \<Rightarrow> bool \<Rightarrow> readings \<Rightarrow> string \<Rightarrow> 32 word \<Rightarrow> device \<Rightarrow> device" where
  "loop_timer ser accepted env deviceId now st =
     (if now - lastPublish st > publishInterval then
        publishData ser accepted env deviceId (st\<lparr>lastPublish := now\<rparr>)
      else st)"

section \<open>Observing a reply\<close>

text \<open>The HTTP status of a reply, when there is one.\<close>

definition http_status :: "'n reply \<Rightarrow> nat option" where
  "http_status r = (case r of Reply code body \<Rightarrow> Some code | _ \<Rightarrow> None)"

section \<open>Basic facts\<close>

lemma obj_get_set_same: "obj_get (obj_set k v ps) k = Some v"
  by (induction ps) auto

lemma obj_get_set_other: "k' \<noteq> k \<Longrightarrow> obj_get (obj_set k v ps) k' = obj_get ps k'"
  by (induction ps) auto

lemma typeof_boolean: "typeof v = ''boolean'' \<longleftrightarrow> (\<exists>b. v = JBool b)"
  by (cases v) simp_all

lemma typeof_string: "typeof v = ''string'' \<longleftrightarrow> (\<exists>s. v = JStr s)"
  by (cases v) simp_all

text \<open>Trimming leaves nothing exactly when the text is white space throughout.\<close>

lemma trim_Nil_iff: "trim ws s = [] \<longleftrightarrow> (\<forall>c\<in>set s. ws c)"
proof
  assume "trim ws s = []"
  then have all: "\<forall>c\<in>set (dropWhile ws s). ws c"
    by (simp add: trim_def dropWhile_eq_Nil_conv)
  have "dropWhile ws s = []"
  proof (rule ccontr)
    assume ne: "dropWhile ws s \<noteq> []"
    then have "\<not> ws (hd (dropWhile ws s))" by (rule hd_dropWhile)
    moreover from ne have "hd (dropWhile ws s) \<in> set (dropWhile ws s)" by simp
    ultimately show False using all by blast
  qed
  then show "\<forall>c\<in>set s. ws c" by (simp add: dropWhile_eq_Nil_conv)
next
  assume "\<forall>c\<in>set s. ws c"
  then have d: "dropWhile ws s = []" by (simp add: dropWhile_eq_Nil_conv)
  show "trim ws s = []" unfolding trim_def d by simp
qed

lemma initMqtt_published: "published (initMqtt st) = published st"
  by (simp add: initMqtt_def)

subsection \<open>One inbound message\<close>

lemma on_message_parsed:
  "parse m = Some v \<Longrightarrow>
   on_message parse dev now (data (TOPICS dev)) m st =
     st\<lparr>latestData := obj_set ''timestamp'' (JStr now) (own_props v),
        console := console st @
          [''Received ['' @ data (TOPICS dev) @ '']: '' @ m, ''Data updated'']\<rparr>"
  by (simp add: on_message_def message_try_def log_line_def Let_def)

lemma on_message_unparsed:
  "parse m = None \<Longrightarrow>
   on_message parse dev now (data (TOPICS dev)) m st =
     st\<lparr>console := console st @
          [''Received ['' @ data (TOPICS dev) @ '']: '' @ m, ''Parse error:'']\<rparr>"
  by (simp add: on_message_def message_try_def log_line_def Let_def)

lemma on_message_other_latest:
  "topic \<noteq> data (TOPICS dev) \<Longrightarrow>
   latestData (on_message parse dev now topic m st) = latestData st"
  by (simp add: on_message_def message_try_def log_line_def Let_def)

lemma on_message_latest_cong:
  "latestData st = latestData st' \<Longrightarrow>
   latestData (on_message parse dev now topic m st) =
     latestData (on_message parse dev now topic m st')"
  by (simp add: on_message_def message_try_def log_line_def Let_def split: option.splits)

text \<open>What later reads return depends on the stored snapshot alone, not on the console.\<close>

lemma deliver_latest_cong:
  "latestData st = latestData st' \<Longrightarrow>
   latestData (deliver parse dev ms st) = latestData (deliver parse dev ms st')"
proof (induction ms arbitrary: st st')
  case Nil
  then show ?case by simp
next
  case (Cons m ms)
  obtain now topic payload where m: "m = (now, topic, payload)" by (cases m)
  show ?case unfolding m deliver.simps
    by (rule Cons.IH) (rule on_message_latest_cong [OF Cons.prems])
qed

lemma worker_on_message_parsed:
  "parse m = Some v \<Longrightarrow>
   worker_on_message parse env_id now (data (worker_topics (or_default env_id))) m st =
     st\<lparr>latestData := obj_set ''timestamp'' (JStr now) (own_props v)\<rparr>"
  by (simp add: worker_on_message_def worker_message_try_def)

lemma worker_on_message_unparsed:
  "parse m = None \<Longrightarrow> worker_on_message parse env_id now topic m st = st"
  by (simp add: worker_on_message_def worker_message_try_def)

subsection \<open>A run of inbound messages\<close>

lemma deliver_timestamp:
  "obj_get (latestData st) ''timestamp'' = Some (JStr t) \<Longrightarrow>
   obj_get (latestData (deliver parse dev ms st)) ''timestamp'' =
     Some (JStr (last_receipt parse (data (TOPICS dev)) t ms))"
proof (induction ms arbitrary: st t)
  case Nil
  then show ?case by simp
next
  case (Cons m ms)
  obtain now topic payload where m: "m = (now, topic, payload)" by (cases m)
  have "obj_get (latestData (on_message parse dev now topic payload st)) ''timestamp'' =
          Some (JStr (if topic = data (TOPICS dev) \<and> parse payload \<noteq> None then now else t))"
  proof (cases "topic = data (TOPICS dev)")
    case False
    then show ?thesis using Cons.prems by (simp add: on_message_other_latest)
  next
    case True
    show ?thesis
    proof (cases "parse payload")
      case None
      then show ?thesis using True Cons.prems by (simp add: on_message_unparsed)
    next
      case (Some v)
      then show ?thesis using True by (simp add: on_message_parsed obj_get_set_same)
    qed
  qed
  then show ?case unfolding m deliver.simps last_receipt.simps by (rule Cons.IH)
qed

lemma worker_deliver_timestamp:
  "obj_get (latestData st) ''timestamp'' = Some (JStr t) \<Longrightarrow>
   obj_get (latestData (worker_deliver parse env_id ms st)) ''timestamp'' =
     Some (JStr (last_receipt parse (data (worker_topics (or_default env_id))) t ms))"
proof (induction ms arbitrary: st t)
  case Nil
  then show ?case by simp
next
  case (Cons m ms)
  obtain now topic payload where m: "m = (now, topic, payload)" by (cases m)
  have "obj_get (latestData (worker_on_message parse env_id now topic payload st)) ''timestamp'' =
          Some (JStr (if topic = data (worker_topics (or_default env_id)) \<and> parse payload \<noteq> None
                      then now else t))"
    using Cons.prems
    by (auto simp: worker_on_message_def worker_message_try_def obj_get_set_same
        split: option.splits)
  then show ?case unfolding m worker_deliver.simps last_receipt.simps by (rule Cons.IH)
qed

section \<open>Topic namespace: the three implementations agree\<close>

text \<open>
  Claim C9. The mapping from a device identifier to its topics is a total function with
  no error result: for every \<open>d\<close> it yields \<^verbatim>\<open>device/<d>/data\<close>, \<^verbatim>\<open>device/<d>/command\<close>
  and \<^verbatim>\<open>device/<d>/status\<close>, and the express bridge, the worker and the firmware build the
  same three topics from the same identifier.
\<close>

theorem topics_agree:
  "TOPICS d = \<lparr> data = ''device/'' @ d @ ''/data'', command = ''device/'' @ d @ ''/command'',
                status = ''device/'' @ d @ ''/status'' \<rparr>
   \<and> worker_topics d = TOPICS d
   \<and> \<lparr> data = topicData d, command = topicCommand d, status = topicStatus d \<rparr> = TOPICS d"
  by (simp add: TOPICS_def worker_topics_def topicData_def topicCommand_def topicStatus_def)

text \<open>The default identifier, in the three implementations.\<close>

theorem topics_agree_witness:
  "TOPICS ''esp8266_001'' =
     \<lparr> data = ''device/esp8266_001/data'', command = ''device/esp8266_001/command'',
       status = ''device/esp8266_001/status'' \<rparr>
   \<and> worker_topics (or_default None) = TOPICS ''esp8266_001''
   \<and> topicCommand ''esp8266_001'' = ''device/esp8266_001/command''"
  using topics_agree [of "''esp8266_001''"]
  by (simp add: or_default_def TOPICS_def worker_topics_def topicCommand_def)

section \<open>The boolean command\<close>

text \<open>
  Claim C7. Let \<open>v\<close> be the \<^verbatim>\<open>state\<close> field of the request. When \<open>v\<close> is not a boolean,
  both bridges answer 400 (the invalid-input reply) and hand nothing to the client. When
  \<open>v\<close> is \<^verbatim>\<open>true\<close> the one publish made goes to the command topic with the text
  \<^verbatim>\<open>LED_ON\<close> at QoS 1; when it is \<^verbatim>\<open>false\<close>, with the text \<^verbatim>\<open>LED_OFF\<close>. No other
  text is published.
\<close>

theorem led_tokens:
  assumes "destructure body ''state'' = Inr v"
  shows "((\<forall>b. v \<noteq> JBool b) \<longrightarrow>
            post_command_led dev body cb st =
              (Reply 400 [(''success'', JBool False),
                          (''message'', JStr ''Invalid command. Expected { state: boolean }'')], st)
          \<and> worker_post_command_led env_id body st =
              (Reply 400 [(''success'', JBool False), (''message'', JStr ''Invalid state'')],
               initMqtt st)
          \<and> published (initMqtt st) = published st)
       \<and> (\<forall>b. v = JBool b \<longrightarrow>
            published (snd (post_command_led dev body cb st)) =
              published st @ [(command (TOPICS dev), if b then ''LED_ON'' else ''LED_OFF'', 1)]
          \<and> published (snd (worker_post_command_led env_id body st)) =
              published st @ [(command (worker_topics (or_default env_id)),
                               if b then ''LED_ON'' else ''LED_OFF'', 1)])"
  using assms
  by (auto simp: post_command_led_def worker_post_command_led_def typeof_boolean
      publish_callback_def publish_def log_line_def initMqtt_published Let_def
      split: puback.splits)

text \<open>\<^verbatim>\<open>{state: true}\<close>, \<^verbatim>\<open>{state: false}\<close> and \<^verbatim>\<open>{state: "on"}\<close> at start-up.\<close>

theorem led_tokens_witness:
  "published (snd (post_command_led ''esp8266_001'' (JObj [(''state'', JBool True)]) CbOk
                     (express_init ''broker'' ''8883'' ''t0'' :: int bridge))) =
     [(''device/esp8266_001/command'', ''LED_ON'', 1)]
   \<and> published (snd (worker_post_command_led None (JObj [(''state'', JBool False)])
                       (worker_init ''t0'' :: int bridge))) =
     [(''device/esp8266_001/command'', ''LED_OFF'', 1)]
   \<and> post_command_led ''esp8266_001'' (JObj [(''state'', JStr ''on'')]) CbOk
        (express_init ''broker'' ''8883'' ''t0'' :: int bridge) =
     (Reply 400 [(''success'', JBool False),
                 (''message'', JStr ''Invalid command. Expected { state: boolean }'')],
      express_init ''broker'' ''8883'' ''t0'')"
  using led_tokens [of "JObj [(''state'', JBool True)]" "JBool True" "''esp8266_001''" CbOk
                       "express_init ''broker'' ''8883'' ''t0'' :: int bridge" None]
        led_tokens [of "JObj [(''state'', JBool False)]" "JBool False" "''esp8266_001''" CbOk
                       "worker_init ''t0'' :: int bridge" None]
        led_tokens [of "JObj [(''state'', JStr ''on'')]" "JStr ''on''" "''esp8266_001''" CbOk
                       "express_init ''broker'' ''8883'' ''t0'' :: int bridge" None]
  by (simp add: express_init_def worker_init_def TOPICS_def worker_topics_def or_default_def
      post_command_led_def worker_post_command_led_def publish_callback_def publish_def
      log_line_def initMqtt_def Let_def)

section \<open>The free-text command\<close>

text \<open>
  Claim C6. Let the \<^verbatim>\<open>command\<close> field of the request be the string \<open>s\<close>. When \<open>s\<close> is
  empty or white space throughout, both bridges answer 400 and leave the state as it was,
  so that nothing is published. For every other string the trimmed text is published on
  the command topic at QoS 1 and the answer is produced the way the boolean command
  produces it: in the express bridge by the same publish callback, with the same status
  for the same outcome; in the worker at once, with the same status.
\<close>

theorem raw_blank:
  assumes "destructure body ''command'' = Inr (JStr s)"
  shows "((\<forall>c\<in>set s. ws c) \<longrightarrow>
            post_command ws dev body cb st =
              (Reply 400 [(''success'', JBool False), (''message'', JStr ''Invalid command'')], st)
          \<and> worker_post_command ws env_id body st =
              (Reply 400 [(''success'', JBool False), (''message'', JStr ''Invalid command'')],
               initMqtt st)
          \<and> published (initMqtt st) = published st)
       \<and> (\<not> (\<forall>c\<in>set s. ws c) \<longrightarrow>
            post_command ws dev body cb st =
              publish_callback cb
                [(''success'', JBool True), (''message'', JStr ''Command sent''),
                 (''command'', JStr (trim ws s))]
                (publish (command (TOPICS dev)) (trim ws s) 1
                   (log_line (''Custom command: '' @ s) st))
          \<and> http_status (fst (post_command ws dev body cb st)) =
              http_status (fst (post_command_led dev (JObj [(''state'', JBool b)]) cb st'))
          \<and> worker_post_command ws env_id body st =
              (Reply 200 [(''success'', JBool True), (''message'', JStr ''Command sent''),
                          (''command'', JStr (trim ws s))],
               publish (command (worker_topics (or_default env_id))) (trim ws s) 1 (initMqtt st))
          \<and> http_status (fst (worker_post_command ws env_id body st)) =
              http_status (fst (worker_post_command_led env_id (JObj [(''state'', JBool b)]) st')))"
  using assms
  by (simp add: post_command_def worker_post_command_def optional_trim_def Let_def
      trim_Nil_iff [symmetric] initMqtt_published post_command_led_def
      worker_post_command_led_def publish_callback_def http_status_def split: puback.splits)

text \<open>
  The empty text and three blanks from start-up (the list of publishes stays empty), and
  a text with blanks around it.
\<close>

theorem raw_blank_witness:
  "published (snd (post_command (\<lambda>c. c = CHR '' '') ''esp8266_001''
                     (JObj [(''command'', JStr '''')]) CbOk (express_init ''broker'' ''8883'' ''t0'' :: int bridge))) = []
   \<and> published (snd (post_command (\<lambda>c. c = CHR '' '') ''esp8266_001''
                     (JObj [(''command'', JStr ''   '')]) CbOk (express_init ''broker'' ''8883'' ''t0'' :: int bridge))) = []
   \<and> published (snd (worker_post_command (\<lambda>c. c = CHR '' '') None
                     (JObj [(''command'', JStr ''   '')]) (worker_init ''t0'' :: int bridge))) = []
   \<and> post_command (\<lambda>c. c = CHR '' '') ''esp8266_001''
        (JObj [(''command'', JStr '' ping '')]) CbOk (express_init ''broker'' ''8883'' ''t0'' :: int bridge) =
      (Reply 200 [(''success'', JBool True), (''message'', JStr ''Command sent''),
                  (''command'', JStr ''ping'')],
       (express_init ''broker'' ''8883'' ''t0'')
         \<lparr>published := [(''device/esp8266_001/command'', ''ping'', 1)],
          console := [''### Initializing MQTT client...'', ''### Connecting to: broker:8883'',
                      ''Custom command:  ping '']\<rparr>)"
  using raw_blank [of "JObj [(''command'', JStr '''')]" "''''" "\<lambda>c. c = CHR '' ''"
                      "''esp8266_001''" CbOk "express_init ''broker'' ''8883'' ''t0'' :: int bridge" None]
        raw_blank [of "JObj [(''command'', JStr ''   '')]" "''   ''" "\<lambda>c. c = CHR '' ''"
                      "''esp8266_001''" CbOk "express_init ''broker'' ''8883'' ''t0'' :: int bridge" None]
        raw_blank [of "JObj [(''command'', JStr ''   '')]" "''   ''" "\<lambda>c. c = CHR '' ''"
                      "''esp8266_001''" CbOk "worker_init ''t0'' :: int bridge" None]
        raw_blank [of "JObj [(''command'', JStr '' ping '')]" "'' ping ''" "\<lambda>c. c = CHR '' ''"
                      "''esp8266_001''" CbOk "express_init ''broker'' ''8883'' ''t0'' :: int bridge" None]
  by (simp add: express_init_def worker_init_def initMqtt_def trim_def publish_callback_def
      publish_def log_line_def TOPICS_def post_command_def worker_post_command_def
      optional_trim_def Let_def)

text \<open>
  Claim C10. Let the \<^verbatim>\<open>command\<close> field of the request be a value \<open>v\<close> that is not a
  string. The express bridge answers 400 by its \<^verbatim>\<open>typeof\<close> test, whatever \<open>v\<close> is. The
  worker, when \<open>v\<close> is neither \<^verbatim>\<open>undefined\<close> nor \<^verbatim>\<open>null\<close>, throws a \<^verbatim>\<open>TypeError\<close> from
  its guard \<^verbatim>\<open>command?.trim()\<close> instead of answering 400. Neither publishes.
\<close>

theorem raw_non_string:
  assumes "destructure body ''command'' = Inr v" and "\<forall>s. v \<noteq> JStr s"
  shows "post_command ws dev body cb st =
           (Reply 400 [(''success'', JBool False), (''message'', JStr ''Invalid command'')], st)
       \<and> (v \<noteq> JUndefined \<and> v \<noteq> JNull \<longrightarrow>
            worker_post_command ws env_id body st = (Threw TypeError, initMqtt st))
       \<and> published (initMqtt st) = published st"
proof -
  from assms(2) have ty: "typeof v \<noteq> ''string''" by (simp add: typeof_string)
  have ex: "post_command ws dev body cb st =
           (Reply 400 [(''success'', JBool False), (''message'', JStr ''Invalid command'')], st)"
    using assms(1) ty by (simp add: post_command_def)
  have ct: "call_trim ws v = Inl TypeError" using assms(2) by (cases v) simp_all
  have wk: "v \<noteq> JUndefined \<and> v \<noteq> JNull \<longrightarrow>
            worker_post_command ws env_id body st = (Threw TypeError, initMqtt st)"
    using assms(1) ct by (simp add: worker_post_command_def optional_trim_def Let_def)
  show ?thesis using ex wk by (simp add: initMqtt_published)
qed

text \<open>A number and an object as the command.\<close>

theorem raw_non_string_witness:
  "worker_post_command (\<lambda>c. c = CHR '' '') None (JObj [(''command'', JNum 5)])
     (worker_init ''t0'' :: int bridge) =
     (Threw TypeError,
      \<lparr> latestData = [(''ledState'', JBool False), (''timestamp'', JStr ''t0'')],
        mqttClient = Some 0, connected = False, connects = 1, published = [], console = [] \<rparr>)
   \<and> worker_post_command (\<lambda>c. c = CHR '' '') None (JObj [(''command'', JObj [])])
        (worker_init ''t0'' :: int bridge) =
     (Threw TypeError, initMqtt (worker_init ''t0''))
   \<and> post_command (\<lambda>c. c = CHR '' '') ''esp8266_001'' (JObj [(''command'', JNum 5)]) CbOk
        (express_init ''broker'' ''8883'' ''t0'' :: int bridge) =
     (Reply 400 [(''success'', JBool False), (''message'', JStr ''Invalid command'')],
      express_init ''broker'' ''8883'' ''t0'')"
  using raw_non_string [of "JObj [(''command'', JNum 5)]" "JNum 5" "\<lambda>c. c = CHR '' ''"
                           "''esp8266_001''" CbOk "worker_init ''t0'' :: int bridge" None]
        raw_non_string [of "JObj [(''command'', JObj [])]" "JObj []" "\<lambda>c. c = CHR '' ''"
                           "''esp8266_001''" CbOk "worker_init ''t0'' :: int bridge" None]
        raw_non_string [of "JObj [(''command'', JNum 5)]" "JNum 5" "\<lambda>c. c = CHR '' ''"
                           "''esp8266_001''" CbOk "express_init ''broker'' ''8883'' ''t0'' :: int bridge" None]
  by (simp add: worker_init_def initMqtt_def)

section \<open>Acknowledgment of a command\<close>

text \<open>
  Claim C1, as the specification states it, asks of both bridges that a command is
  answered with success only after the broker's acknowledgment, and with a publish error
  when no session is connected. At start-up no session is connected. The worker answers
  \<^verbatim>\<open>{state: true}\<close> with success at once: it has handed the publish to a client it has
  just created and has not waited for anything. The express bridge, with a client that has
  not called back, has sent no answer at all, so no publish error either.
\<close>

theorem worker_replies_before_ack:
  "worker_post_command_led None (JObj [(''state'', JBool True)]) (worker_init ''t0'' :: int bridge) =
     (Reply 200 [(''success'', JBool True), (''message'', JStr ''LED turned ON''),
                 (''command'', JStr ''LED_ON'')],
      \<lparr> latestData = [(''ledState'', JBool False), (''timestamp'', JStr ''t0'')],
        mqttClient = Some 0, connected = False, connects = 1,
        published = [(''device/esp8266_001/command'', ''LED_ON'', 1)], console = [] \<rparr>)
   \<and> fst (post_command_led ''esp8266_001'' (JObj [(''state'', JBool True)]) NoCb
            (express_init ''broker'' ''8883'' ''t0'' :: int bridge)) = NoReply
   \<and> connected (express_init ''broker'' ''8883'' ''t0'' :: int bridge) = False"
  by (simp add: worker_post_command_led_def worker_init_def initMqtt_def publish_def
      worker_topics_def or_default_def post_command_led_def publish_callback_def
      express_init_def Let_def)

text \<open>
  Claim C1, amended. In the express bridge a command that passes validation is handed to
  the client at QoS 1, and the answer is decided by the completion callback of that
  publish alone: success when the callback reports no error (for QoS 1 the client calls
  back once the broker has acknowledged), the publish error (status 500) when it reports
  one, and no answer while it has not been called. The handlers neither read the
  \<^verbatim>\<open>connected\<close> flag nor set a timeout of their own.
\<close>

theorem express_reply_follows_callback:
  assumes "destructure body ''state'' = Inr (JBool b)"
    and "destructure body' ''command'' = Inr (JStr s)" and "\<not> (\<forall>c\<in>set s. ws c)"
  shows "fst (post_command_led dev body cb st) =
           (case cb of
              CbOk \<Rightarrow> Reply 200 [(''success'', JBool True),
                                  (''message'', JStr (''LED turned '' @ (if b then ''ON'' else ''OFF''))),
                                  (''command'', JStr (if b then ''LED_ON'' else ''LED_OFF''))]
            | CbErr \<Rightarrow> Reply 500 [(''success'', JBool False),
                                   (''message'', JStr ''Failed to send command'')]
            | NoCb \<Rightarrow> NoReply)
       \<and> fst (post_command ws dev body' cb st) =
           (case cb of
              CbOk \<Rightarrow> Reply 200 [(''success'', JBool True), (''message'', JStr ''Command sent''),
                                  (''command'', JStr (trim ws s))]
            | CbErr \<Rightarrow> Reply 500 [(''success'', JBool False),
                                   (''message'', JStr ''Failed to send command'')]
            | NoCb \<Rightarrow> NoReply)
       \<and> published (snd (post_command_led dev body cb st)) =
           published st @ [(command (TOPICS dev), if b then ''LED_ON'' else ''LED_OFF'', 1)]
       \<and> published (snd (post_command ws dev body' cb st)) =
           published st @ [(command (TOPICS dev), trim ws s, 1)]"
  using assms
  by (simp add: post_command_led_def post_command_def publish_callback_def publish_def
      log_line_def Let_def trim_Nil_iff [symmetric] split: puback.splits)

text \<open>A failed publish of \<^verbatim>\<open>{state: true}\<close> and an acknowledged \<^verbatim>\<open>ping\<close>.\<close>

theorem express_reply_follows_callback_witness:
  "fst (post_command_led ''esp8266_001'' (JObj [(''state'', JBool True)]) CbErr
          (express_init ''broker'' ''8883'' ''t0'' :: int bridge)) =
     Reply 500 [(''success'', JBool False), (''message'', JStr ''Failed to send command'')]
   \<and> fst (post_command (\<lambda>c. c = CHR '' '') ''esp8266_001'' (JObj [(''command'', JStr ''ping'')]) CbOk
          (express_init ''broker'' ''8883'' ''t0'' :: int bridge)) =
     Reply 200 [(''success'', JBool True), (''message'', JStr ''Command sent''),
                (''command'', JStr ''ping'')]"
  using express_reply_follows_callback
    [of "JObj [(''state'', JBool True)]" True "JObj [(''command'', JStr ''ping'')]" "''ping''"
        "\<lambda>c. c = CHR '' ''" "''esp8266_001''" CbErr "express_init ''broker'' ''8883'' ''t0'' :: int bridge"]
    express_reply_follows_callback
    [of "JObj [(''state'', JBool True)]" True "JObj [(''command'', JStr ''ping'')]" "''ping''"
        "\<lambda>c. c = CHR '' ''" "''esp8266_001''" CbOk "express_init ''broker'' ''8883'' ''t0'' :: int bridge"]
  by (simp add: trim_def)

section \<open>The state cache\<close>

text \<open>
  Claim C2, as the specification states it, asks that every payload that is not the
  expected structure leaves the stored snapshot as it was. The only test the handlers
  make is whether \<^verbatim>\<open>JSON.parse\<close> throws. The texts \<^verbatim>\<open>null\<close> and \<^verbatim>\<open>5\<close> are valid JSON
  and not telemetry objects: \<^verbatim>\<open>JSON.parse\<close> returns \<^verbatim>\<open>null\<close> and the number, the spread
  copies nothing, and the snapshot becomes the object with \<^verbatim>\<open>timestamp\<close> alone. The
  placeholder's \<^verbatim>\<open>ledState\<close> is gone from what a read returns, no decode failure is
  signalled, and the express bridge logs \<^verbatim>\<open>Data updated\<close>.
\<close>

theorem wrong_shape_payload_blanks_snapshot:
  "on_message (map_of [(''null'', JNull), (''5'', JNum 5)]) ''esp8266_001'' ''t1''
     ''device/esp8266_001/data'' ''null'' (express_init ''broker'' ''8883'' ''t0'' :: int bridge) =
     \<lparr> latestData = [(''timestamp'', JStr ''t1'')],
       mqttClient = Some 0, connected = False, connects = 1, published = [],
       console = [''### Initializing MQTT client...'', ''### Connecting to: broker:8883'',
                  ''Received [device/esp8266_001/data]: null'', ''Data updated''] \<rparr>
   \<and> api_data (express_init ''broker'' ''8883'' ''t0'' :: int bridge) =
     Reply 200 [(''success'', JBool True),
                (''data'', JObj [(''ledState'', JBool False), (''timestamp'', JStr ''t0'')]),
                (''mqttConnected'', JBool False)]
   \<and> api_data (on_message (map_of [(''null'', JNull), (''5'', JNum 5)]) ''esp8266_001'' ''t1''
        ''device/esp8266_001/data'' ''null'' (express_init ''broker'' ''8883'' ''t0'' :: int bridge)) =
     Reply 200 [(''success'', JBool True), (''data'', JObj [(''timestamp'', JStr ''t1'')]),
                (''mqttConnected'', JBool False)]
   \<and> worker_on_message (map_of [(''null'', JNull), (''5'', JNum 5)]) None ''t1''
        ''device/esp8266_001/data'' ''5'' (worker_init ''t0'' :: int bridge) =
     \<lparr> latestData = [(''timestamp'', JStr ''t1'')],
       mqttClient = None, connected = False, connects = 0, published = [], console = [] \<rparr>"
  by (simp add: on_message_def message_try_def log_line_def Let_def express_init_def TOPICS_def
      api_data_def worker_on_message_def worker_message_try_def worker_init_def
      worker_topics_def or_default_def)

text \<open>
  Claim C2, amended. When \<^verbatim>\<open>JSON.parse\<close> rejects a telemetry payload (the text is not
  JSON), the \<^verbatim>\<open>try\<close> block ends with the \<^verbatim>\<open>SyntaxError\<close> and the handler catches it.
  In the express bridge the whole state is as before except for two console lines, so a
  read answers as before, and the messages that follow are handled as if the bad one had
  not come. In the worker the state is as before altogether. The handler itself returns
  normally in both.
\<close>

theorem malformed_payload_keeps_snapshot:
  assumes "parse m = None"
  shows "message_try parse dev now (data (TOPICS dev)) m st = Inl SyntaxError
       \<and> on_message parse dev now (data (TOPICS dev)) m st =
           st\<lparr>console := console st @
                [''Received ['' @ data (TOPICS dev) @ '']: '' @ m, ''Parse error:'']\<rparr>
       \<and> api_data (on_message parse dev now (data (TOPICS dev)) m st) = api_data st
       \<and> latestData (deliver parse dev ((now, data (TOPICS dev), m) # ms) st) =
           latestData (deliver parse dev ms st)
       \<and> worker_message_try parse now m st = Inl SyntaxError
       \<and> worker_on_message parse env_id now topic m st = st
       \<and> worker_deliver parse env_id ((now, topic, m) # ms) st = worker_deliver parse env_id ms st"
proof -
  have keep: "on_message parse dev now (data (TOPICS dev)) m st =
           st\<lparr>console := console st @
                [''Received ['' @ data (TOPICS dev) @ '']: '' @ m, ''Parse error:'']\<rparr>"
    using assms by (rule on_message_unparsed)
  have later: "latestData (deliver parse dev ((now, data (TOPICS dev), m) # ms) st) =
           latestData (deliver parse dev ms st)"
    unfolding deliver.simps by (rule deliver_latest_cong) (simp add: keep)
  have thrown: "message_try parse dev now (data (TOPICS dev)) m st = Inl SyntaxError"
    using assms by (simp add: message_try_def)
  have wthrown: "worker_message_try parse now m st = Inl SyntaxError"
    using assms by (simp add: worker_message_try_def)
  show ?thesis
    using assms keep later thrown wthrown
    by (simp add: api_data_def worker_on_message_unparsed)
qed

text \<open>A payload that does not parse, at start-up.\<close>

theorem malformed_payload_keeps_snapshot_witness:
  "api_data (on_message (\<lambda>s. None) ''esp8266_001'' ''t1'' ''device/esp8266_001/data'' ''{oops''
               (express_init ''broker'' ''8883'' ''t0'' :: int bridge)) =
     Reply 200 [(''success'', JBool True),
                (''data'', JObj [(''ledState'', JBool False), (''timestamp'', JStr ''t0'')]),
                (''mqttConnected'', JBool False)]
   \<and> console (on_message (\<lambda>s. None) ''esp8266_001'' ''t1'' ''device/esp8266_001/data'' ''{oops''
               (express_init ''broker'' ''8883'' ''t0'' :: int bridge)) =
     [''### Initializing MQTT client...'', ''### Connecting to: broker:8883'',
      ''Received [device/esp8266_001/data]: {oops'', ''Parse error:'']
   \<and> worker_on_message (\<lambda>s. None) None ''t1'' ''device/esp8266_001/data'' ''{oops''
        (worker_init ''t0'' :: int bridge) = worker_init ''t0''"
  using malformed_payload_keeps_snapshot
    [of "\<lambda>s. None" "''{oops''" "''esp8266_001''" "''t1''" "express_init ''broker'' ''8883'' ''t0'' :: int bridge"
        "[]" None "''device/esp8266_001/data''"]
    malformed_payload_keeps_snapshot
    [of "\<lambda>s. None" "''{oops''" "''esp8266_001''" "''t1''" "worker_init ''t0'' :: int bridge"
        "[]" None "''device/esp8266_001/data''"]
  by (simp add: TOPICS_def express_init_def api_data_def)

text \<open>
  Claim C3. When \<^verbatim>\<open>JSON.parse\<close> reads the payload of the example as the object with
  \<^verbatim>\<open>ledState\<close> true, \<^verbatim>\<open>uptime\<close> 120, \<^verbatim>\<open>freeHeap\<close> 30000 and \<^verbatim>\<open>rssi\<close> -55, a read after
  its arrival on the telemetry topic at time \<open>now\<close> returns exactly these four fields and
  \<^verbatim>\<open>timestamp\<close> \<open>now\<close>, in both bridges. (The specification calls the fields
  uptimeSeconds, freeHeapBytes, signalStrengthDbm and observedAt.)
\<close>

theorem end_to_end:
  assumes \<open>parse ''{"ledState":true,"uptime":120,"freeHeap":30000,"rssi":-55}'' =
             Some (JObj [(''ledState'', JBool True), (''uptime'', JNum (120::int)),
                         (''freeHeap'', JNum 30000), (''rssi'', JNum (- 55))])\<close>
  shows \<open>api_data (on_message parse dev now (data (TOPICS dev))
                     ''{"ledState":true,"uptime":120,"freeHeap":30000,"rssi":-55}'' st) =
           Reply 200 [(''success'', JBool True),
                      (''data'', JObj [(''ledState'', JBool True), (''uptime'', JNum 120),
                                       (''freeHeap'', JNum 30000), (''rssi'', JNum (- 55)),
                                       (''timestamp'', JStr now)]),
                      (''mqttConnected'', JBool (connected st))]
       \<and> fst (worker_api_data
                (worker_on_message parse env_id now (data (worker_topics (or_default env_id)))
                   ''{"ledState":true,"uptime":120,"freeHeap":30000,"rssi":-55}'' st)) =
           Reply 200 [(''success'', JBool True),
                      (''data'', JObj [(''ledState'', JBool True), (''uptime'', JNum 120),
                                       (''freeHeap'', JNum 30000), (''rssi'', JNum (- 55)),
                                       (''timestamp'', JStr now)]),
                      (''mqttConnected'', JBool (mqttClient st \<noteq> None \<and> connected st))]\<close>
  using assms
  by (simp add: on_message_parsed worker_on_message_parsed api_data_def worker_api_data_def
      initMqtt_def Let_def)

text \<open>The example, five seconds after start-up, with a decoder that knows this one text.\<close>

theorem end_to_end_witness:
  \<open>api_data
     (on_message
        (\<lambda>s. if s = ''{"ledState":true,"uptime":120,"freeHeap":30000,"rssi":-55}''
             then Some (JObj [(''ledState'', JBool True), (''uptime'', JNum (120::int)),
                              (''freeHeap'', JNum 30000), (''rssi'', JNum (- 55))])
             else None)
        ''esp8266_001'' ''2025-01-01T00:00:05.000Z'' ''device/esp8266_001/data''
        ''{"ledState":true,"uptime":120,"freeHeap":30000,"rssi":-55}''
        (express_init ''broker'' ''8883'' ''2025-01-01T00:00:00.000Z'')) =
   Reply 200 [(''success'', JBool True),
              (''data'', JObj [(''ledState'', JBool True), (''uptime'', JNum 120),
                               (''freeHeap'', JNum 30000), (''rssi'', JNum (- 55)),
                               (''timestamp'', JStr ''2025-01-01T00:00:05.000Z'')]),
              (''mqttConnected'', JBool False)]\<close>
  using end_to_end
    [of \<open>\<lambda>s. if s = ''{"ledState":true,"uptime":120,"freeHeap":30000,"rssi":-55}''
             then Some (JObj [(''ledState'', JBool True), (''uptime'', JNum (120::int)),
                              (''freeHeap'', JNum 30000), (''rssi'', JNum (- 55))])
             else None\<close>
        "''esp8266_001''" "''2025-01-01T00:00:05.000Z''"
        "express_init ''broker'' ''8883'' ''2025-01-01T00:00:00.000Z''" None]
  by (simp add: TOPICS_def express_init_def)

text \<open>
  Claim C4. A telemetry payload that parses to \<open>v\<close> replaces the snapshot by the own
  properties of \<open>v\<close> with \<^verbatim>\<open>timestamp\<close> set: the new snapshot is the same whatever the
  state before was, so nothing of the previous snapshot or of the start-up placeholder
  survives, and every field other than \<^verbatim>\<open>timestamp\<close> is in the new snapshot exactly as it
  is in the payload, absent when it is absent there.
\<close>

theorem replace_wholesale:
  assumes "parse m = Some v"
  shows "latestData (on_message parse dev now (data (TOPICS dev)) m st) =
           obj_set ''timestamp'' (JStr now) (own_props v)
       \<and> latestData (worker_on_message parse env_id now
                       (data (worker_topics (or_default env_id))) m st) =
           obj_set ''timestamp'' (JStr now) (own_props v)
       \<and> latestData (on_message parse dev now (data (TOPICS dev)) m st) =
           latestData (on_message parse dev now (data (TOPICS dev)) m st')
       \<and> latestData (worker_on_message parse env_id now
                       (data (worker_topics (or_default env_id))) m st) =
           latestData (worker_on_message parse env_id now
                       (data (worker_topics (or_default env_id))) m st')
       \<and> (\<forall>k. k \<noteq> ''timestamp'' \<longrightarrow>
            obj_get (latestData (on_message parse dev now (data (TOPICS dev)) m st)) k =
              obj_get (own_props v) k
          \<and> obj_get (latestData (worker_on_message parse env_id now
                          (data (worker_topics (or_default env_id))) m st)) k =
              obj_get (own_props v) k)"
  using assms
  by (simp add: on_message_parsed worker_on_message_parsed obj_get_set_other)

text \<open>
  A payload with \<^verbatim>\<open>uptime\<close> alone, right after start-up: the placeholder's \<^verbatim>\<open>ledState\<close>
  is gone.
\<close>

theorem replace_wholesale_witness:
  \<open>latestData
     (on_message (\<lambda>s. if s = ''{"uptime":5}'' then Some (JObj [(''uptime'', JNum (5::int))]) else None)
        ''esp8266_001'' ''t1'' ''device/esp8266_001/data'' ''{"uptime":5}'' (express_init ''broker'' ''8883'' ''t0'')) =
     [(''uptime'', JNum 5), (''timestamp'', JStr ''t1'')]
   \<and> obj_get (latestData
     (on_message (\<lambda>s. if s = ''{"uptime":5}'' then Some (JObj [(''uptime'', JNum (5::int))]) else None)
        ''esp8266_001'' ''t1'' ''device/esp8266_001/data'' ''{"uptime":5}'' (express_init ''broker'' ''8883'' ''t0'')))
        ''ledState'' = None
   \<and> obj_get (latestData (express_init ''broker'' ''8883'' ''t0'' :: int bridge)) ''ledState'' = Some (JBool False)\<close>
  using replace_wholesale
    [of \<open>\<lambda>s. if s = ''{"uptime":5}'' then Some (JObj [(''uptime'', JNum (5::int))]) else None\<close>
        \<open>''{"uptime":5}''\<close> "JObj [(''uptime'', JNum 5)]" "''esp8266_001''" "''t1''"
        "express_init ''broker'' ''8883'' ''t0''" None "express_init ''broker'' ''8883'' ''t0''"]
  by (simp add: TOPICS_def express_init_def)

text \<open>
  Claim C5. After any run of inbound messages from start-up, the \<^verbatim>\<open>timestamp\<close> of the
  snapshot is the receipt time of the last telemetry message that parsed, and the
  start-up time when there was none; what the payloads carry under \<^verbatim>\<open>timestamp\<close> plays
  no part. This holds in both bridges.
\<close>

theorem observedAt_is_receipt_time:
  "obj_get (latestData (deliver parse dev ms (express_init host port t0))) ''timestamp'' =
     Some (JStr (last_receipt parse (data (TOPICS dev)) t0 ms))
   \<and> obj_get (latestData (worker_deliver parse env_id ms (worker_init t0))) ''timestamp'' =
     Some (JStr (last_receipt parse (data (worker_topics (or_default env_id))) t0 ms))"
  by (simp add: deliver_timestamp worker_deliver_timestamp express_init_def worker_init_def)

text \<open>
  A payload that brings its own \<^verbatim>\<open>timestamp\<close>, followed by one that does not parse and
  by a status message.
\<close>

theorem observedAt_is_receipt_time_witness:
  \<open>obj_get (latestData
      (deliver (\<lambda>s. if s = ''{"timestamp":"1970"}'' then Some (JObj [(''timestamp'', JStr ''1970'')])
                    else None)
         ''esp8266_001''
         [(''t1'', ''device/esp8266_001/data'', ''{"timestamp":"1970"}''),
          (''t2'', ''device/esp8266_001/data'', ''not json''),
          (''t3'', ''device/esp8266_001/status'', ''online'')]
         (express_init ''broker'' ''8883'' ''t0'' :: int bridge))) ''timestamp'' = Some (JStr ''t1'')\<close>
  using observedAt_is_receipt_time
    [of \<open>\<lambda>s. if s = ''{"timestamp":"1970"}'' then Some (JObj [(''timestamp'', JStr ''1970'')])
             else None\<close>
        "''esp8266_001''"
        \<open>[(''t1'', ''device/esp8266_001/data'', ''{"timestamp":"1970"}''),
          (''t2'', ''device/esp8266_001/data'', ''not json''),
          (''t3'', ''device/esp8266_001/status'', ''online'')]\<close>
        "''broker''" "''8883''" "''t0''" None]
  by (simp add: TOPICS_def on_message_def message_try_def log_line_def Let_def express_init_def)

section \<open>The firmware's command handler\<close>

text \<open>
  Claim C8. On a message on the command topic whose text is \<^verbatim>\<open>LED_ON\<close> the handler
  drives the pin low (the LED is lit), sets \<^verbatim>\<open>ledState\<close>, and calls \<^verbatim>\<open>client.publish\<close>
  on the data topic with a document that carries the new \<^verbatim>\<open>ledState\<close>; on \<^verbatim>\<open>LED_OFF\<close>
  it drives the pin high, clears \<^verbatim>\<open>ledState\<close> and publishes likewise. The handler never
  looks at \<^verbatim>\<open>lastPublish\<close> and leaves it as it was: the publish does not wait for the
  timer of \<^verbatim>\<open>loop\<close>. \<open>acc\<close> is the answer of \<^verbatim>\<open>client.publish\<close>.
\<close>

theorem callback_led:
  "(take len payload = ''LED_ON'' \<longrightarrow>
      callback ser acc env dev (topicCommand dev) payload len st =
        st\<lparr>ledPin := LOW, ledState := True,
           publishes := publishes st @
             [(topicData dev,
               ser [(''ledState'', DBool True), (''uptime'', DUInt (millis env div 1000)),
                    (''freeHeap'', DUInt (freeHeap env)), (''rssi'', DInt (rssi env))], acc)],
           serial := serial st @
             [''Message ['' @ topicCommand dev @ '']: LED_ON'', ''LED ON'',
              if acc then ''Published: '' @
                ser [(''ledState'', DBool True), (''uptime'', DUInt (millis env div 1000)),
                     (''freeHeap'', DUInt (freeHeap env)), (''rssi'', DInt (rssi env))]
              else ''Publish failed'']\<rparr>)
   \<and> (take len payload = ''LED_OFF'' \<longrightarrow>
      callback ser acc env dev (topicCommand dev) payload len st =
        st\<lparr>ledPin := HIGH, ledState := False,
           publishes := publishes st @
             [(topicData dev,
               ser [(''ledState'', DBool False), (''uptime'', DUInt (millis env div 1000)),
                    (''freeHeap'', DUInt (freeHeap env)), (''rssi'', DInt (rssi env))], acc)],
           serial := serial st @
             [''Message ['' @ topicCommand dev @ '']: LED_OFF'', ''LED OFF'',
              if acc then ''Published: '' @
                ser [(''ledState'', DBool False), (''uptime'', DUInt (millis env div 1000)),
                     (''freeHeap'', DUInt (freeHeap env)), (''rssi'', DInt (rssi env))]
              else ''Publish failed'']\<rparr>)"
  by (simp add: callback_def publishData_def println_def Let_def)

text \<open>
  \<^verbatim>\<open>LED_ON\<close> half a second after the last periodic publish, with a stand-in serializer
  that writes the keys: the handler publishes, the timer of \<^verbatim>\<open>loop\<close> would not yet.
\<close>

theorem callback_led_witness:
  "callback (\<lambda>doc. concat (map fst doc)) True \<lparr>millis = 120500, freeHeap = 30000, rssi = - 55\<rparr>
     ''esp8266_001'' ''device/esp8266_001/command'' ''LED_ON'' 6
     \<lparr>ledPin = HIGH, ledState = False, lastPublish = 120000, publishes = [], serial = []\<rparr> =
   \<lparr>ledPin = LOW, ledState = True, lastPublish = 120000,
    publishes = [(''device/esp8266_001/data'', ''ledStateuptimefreeHeaprssi'', True)],
    serial = [''Message [device/esp8266_001/command]: LED_ON'', ''LED ON'',
              ''Published: ledStateuptimefreeHeaprssi'']\<rparr>
   \<and> loop_timer (\<lambda>doc. concat (map fst doc)) True \<lparr>millis = 120500, freeHeap = 30000, rssi = - 55\<rparr>
     ''esp8266_001'' 120500
     \<lparr>ledPin = HIGH, ledState = False, lastPublish = 120000, publishes = [], serial = []\<rparr> =
     \<lparr>ledPin = HIGH, ledState = False, lastPublish = 120000, publishes = [], serial = []\<rparr>"
  using callback_led [of 6 "''LED_ON''" "\<lambda>doc. concat (map fst doc)" True
      "\<lparr>millis = 120500, freeHeap = 30000, rssi = - 55\<rparr>" "''esp8266_001''"
      "\<lparr>ledPin = HIGH, ledState = False, lastPublish = 120000, publishes = [], serial = []\<rparr>"]
  by (simp add: topicCommand_def topicData_def loop_timer_def publishInterval_def)

end
